theory Spec2Isabelle
  imports Complex_Main "HOL-Library.Sublist" "HOL-Library.AList"
begin

section \<open>Python string primitives used by the scripts\<close>

text \<open>
  A Python \<open>str\<close> is modelled as a HOL \<open>string\<close>, one \<open>char\<close> per character. The
  operations that only move characters around (slicing, concatenation, \<open>join\<close>,
  \<open>split\<close>, \<open>replace\<close>) are exact for every string; the operations that look at
  what a character is follow Python on the characters below U+0100 (\<open>strip\<close>, \<open>int\<close>,
  \<open>repr\<close>) or on the ASCII letters (\<open>upper\<close>), which covers every literal the parsed,
  abbreviated and printed fields contain.
\<close>

datatype py_error =
  ValueError | IndexError | KeyError | TypeError | AttributeError | OverflowError

text \<open>\<open>s.replace(old, new)\<close>: every non-overlapping occurrence, left to right.\<close>

function replace_str :: "string \<Rightarrow> string \<Rightarrow> string \<Rightarrow> string" where
  "replace_str old new s =
     (if old = [] then new @ concat (map (\<lambda>c. c # new) s)
      else if s = [] then []
      else if prefix old s then new @ replace_str old new (drop (length old) s)
      else hd s # replace_str old new (tl s))"
  by pat_completeness auto
termination
  by (relation "measure (\<lambda>(old, new, s). length s)") auto

declare replace_str.simps [simp del]

text \<open>\<open>str.isspace\<close> on the characters below U+0100.\<close>

definition is_space :: "char \<Rightarrow> bool" where
  "is_space c = (of_char c \<in> {9, 10, 11, 12, 13, 28, 29, 30, 31, 32, 133, 160 :: nat})"

definition lstrip :: "string \<Rightarrow> string" where
  "lstrip s = dropWhile is_space s"

definition rstrip :: "string \<Rightarrow> string" where
  "rstrip s = rev (dropWhile is_space (rev s))"

definition strip :: "string \<Rightarrow> string" where
  "strip s = rstrip (lstrip s)"

section \<open>Label truncation\<close>

text \<open>
  \<open>docs/brainstorming_MCP/chart_script.py\<close>, line 136:
  \<^verbatim>\<open>lambda x: x[:15] if len(x) > 15 else x\<close>, and \<open>archive/chart_script (3).py\<close>,
  lines 60-61: \<^verbatim>\<open>if len(group_short) > 15: group_short = group_short[:15]\<close>.
  The limit is the parameter \<open>n\<close>; the scripts use the literal 15.
\<close>

definition truncate_plain :: "nat \<Rightarrow> 'a list \<Rightarrow> 'a list" where
  "truncate_plain n x = (if length x > n then take n x else x)"

text \<open>
  \<open>docs/brainstorming_MCP/chart_script.py\<close>, lines 139-140:
  \<^verbatim>\<open>lambda x: x[:50] + '...' if len(x) > 50 else x\<close>. The scripts use the literal 50.
\<close>

definition truncate_ellipsis :: "nat \<Rightarrow> string \<Rightarrow> string" where
  "truncate_ellipsis n x = (if length x > n then take n x @ ''...'' else x)"

text \<open>The derived label columns, one cell at a time.\<close>

definition Server_Short :: "string \<Rightarrow> string" where
  "Server_Short name =
     truncate_plain 15 (strip (replace_str ''MCP'' '''' (replace_str ''MCP Server'' '''' name)))"

definition Features_Short :: "string \<Rightarrow> string" where
  "Features_Short x = truncate_ellipsis 50 x"

definition Use_Cases_Short :: "string \<Rightarrow> string" where
  "Use_Cases_Short x = truncate_ellipsis 50 x"

definition group_short :: "string \<Rightarrow> string" where
  "group_short user_group =
     truncate_plain 15
       (strip (replace_str ''Professional'' ''Prof''
         (replace_str ''Educational'' ''Edu''
           (replace_str ''Communities'' '''' user_group))))"

section \<open>Flow graph assembly (\<open>archive/chart_script (2).py\<close>)\<close>

text \<open>
  The four module-level lists the script appends to, lines 33-36 (the list \<open>values\<close>
  is the field \<open>link_values\<close>).
\<close>

record flow_lists =
  labels :: "string list"
  sources :: "int list"
  targets :: "int list"
  link_values :: "int list"

definition colors :: "string list" where
  "colors = [''#1FB8CD'', ''#FFC185'', ''#ECEBD5'', ''#5D878F'', ''#D2BA4C'']"

definition input_types :: "string list" where
  "input_types = [''Text'', ''Images'', ''Audio'', ''Video'', ''Documents'']"

definition flow_init :: flow_lists where
  "flow_init = \<lparr>labels = [], sources = [], targets = [], link_values = []\<rparr>"

text \<open>Lines 43-44: one \<open>"<type> Input"\<close> label per input type.\<close>

definition input_label_step :: "flow_lists \<Rightarrow> string \<Rightarrow> flow_lists" where
  "input_label_step st input_type = st\<lparr>labels := labels st @ [input_type @ '' Input'']\<rparr>"

text \<open>Lines 47-57: an \<open>if\<close>/\<open>elif\<close> chain with no \<open>else\<close>; an unknown type appends nothing.\<close>

definition processing_label_step :: "flow_lists \<Rightarrow> string \<Rightarrow> flow_lists" where
  "processing_label_step st input_type =
     (if input_type = ''Text'' then st\<lparr>labels := labels st @ [''NLP Process'']\<rparr>
      else if input_type = ''Images'' then st\<lparr>labels := labels st @ [''Vision Process'']\<rparr>
      else if input_type = ''Audio'' then st\<lparr>labels := labels st @ [''Audio Process'']\<rparr>
      else if input_type = ''Video'' then st\<lparr>labels := labels st @ [''Video Process'']\<rparr>
      else if input_type = ''Documents'' then st\<lparr>labels := labels st @ [''Doc Process'']\<rparr>
      else st)"

text \<open>Lines 60-70.\<close>

definition output_label_step :: "flow_lists \<Rightarrow> string \<Rightarrow> flow_lists" where
  "output_label_step st input_type =
     (if input_type = ''Text'' then st\<lparr>labels := labels st @ [''Smart Chat'']\<rparr>
      else if input_type = ''Images'' then st\<lparr>labels := labels st @ [''Visual Bot'']\<rparr>
      else if input_type = ''Audio'' then st\<lparr>labels := labels st @ [''Voice Bot'']\<rparr>
      else if input_type = ''Video'' then st\<lparr>labels := labels st @ [''Media Bot'']\<rparr>
      else if input_type = ''Documents'' then st\<lparr>labels := labels st @ [''Study Bot'']\<rparr>
      else st)"

text \<open>Lines 73-82: two links per \<open>i\<close>, input to processing and processing to output.\<close>

definition connect_step :: "flow_lists \<Rightarrow> int \<Rightarrow> flow_lists" where
  "connect_step st i =
     (let st1 = st\<lparr>sources := sources st @ [i],
                    targets := targets st @ [i + 5],
                    link_values := link_values st @ [10]\<rparr>
      in st1\<lparr>sources := sources st1 @ [i + 5],
              targets := targets st1 @ [i + 10],
              link_values := link_values st1 @ [10]\<rparr>)"

text \<open>\<open>range(n)\<close> for a literal \<open>n\<close>.\<close>

definition py_range :: "nat \<Rightarrow> int list" where
  "py_range n = map int [0..<n]"

definition assemble_flow :: flow_lists where
  "assemble_flow =
     (let st1 = foldl input_label_step flow_init input_types;
          st2 = foldl processing_label_step st1 input_types;
          st3 = foldl output_label_step st2 input_types
      in foldl connect_step st3 (py_range 5))"

text \<open>
  \<open>xs[i]\<close> on a list: positions \<open>0\<close> up to the length, the same positions counted
  back from the end by \<open>-1\<close>, \<open>-2\<close>, \<dots>, and \<open>IndexError\<close> outside.
\<close>

definition py_index :: "'a list \<Rightarrow> int \<Rightarrow> py_error + 'a" where
  "py_index xs i =
     (if 0 \<le> i \<and> i < int (length xs) then Inr (xs ! nat i)
      else if i < 0 \<and> - int (length xs) \<le> i then Inr (xs ! nat (int (length xs) + i))
      else Inl IndexError)"

text \<open>Lines 85-91: each of the three loops appends \<open>colors[i]\<close> for \<open>i\<close> in \<open>range(5)\<close>.\<close>

fun append_colors :: "string list \<Rightarrow> int list \<Rightarrow> py_error + string list" where
  "append_colors node_colors [] = Inr node_colors"
| "append_colors node_colors (i # is) =
     (case py_index colors i of
        Inl e \<Rightarrow> Inl e
      | Inr c \<Rightarrow> append_colors (node_colors @ [c]) is)"

definition node_colors :: "py_error + string list" where
  "node_colors =
     (case append_colors [] (py_range 5) of Inl e \<Rightarrow> Inl e | Inr c1 \<Rightarrow>
      (case append_colors c1 (py_range 5) of Inl e \<Rightarrow> Inl e | Inr c2 \<Rightarrow>
       append_colors c2 (py_range 5)))"

text \<open>Line 106: the link colour chosen by the link's position.\<close>

definition link_color_at :: "int \<Rightarrow> string" where
  "link_color_at i =
     (if i < 5 then ''rgba(31, 184, 205, 0.2)''
      else if i < 10 then ''rgba(255, 193, 133, 0.2)''
      else if i < 15 then ''rgba(236, 235, 213, 0.2)''
      else if i < 20 then ''rgba(93, 135, 143, 0.2)''
      else ''rgba(210, 186, 76, 0.2)'')"

text \<open>
  The figure description handed to the plotting library by \<open>go.Sankey\<close>, lines 94-108
  (the constant padding, thickness and outline are left out).
\<close>

record sankey =
  node_label :: "string list"
  node_color :: "string list"
  link_source :: "int list"
  link_target :: "int list"
  link_value :: "int list"
  link_color :: "string list"

text \<open>
  Lines 84-116 for given lists: \<open>Inr\<close> is the figure that reaches \<open>fig.write_image\<close>,
  \<open>Inl\<close> an exception raised before. The only operation of these lines that can raise
  is \<open>colors[i]\<close>.
\<close>

definition make_figure :: "flow_lists \<Rightarrow> py_error + sankey" where
  "make_figure st =
     (case node_colors of
        Inl e \<Rightarrow> Inl e
      | Inr nc \<Rightarrow>
          Inr \<lparr>node_label = labels st, node_color = nc,
               link_source = sources st, link_target = targets st,
               link_value = link_values st,
               link_color = map link_color_at (py_range (length (sources st)))\<rparr>)"

definition sankey_script :: "py_error + sankey" where
  "sankey_script = make_figure assemble_flow"

text \<open>What a bounds check of the links against the node labels would test.\<close>

definition links_in_bounds :: "sankey \<Rightarrow> bool" where
  "links_in_bounds fig =
     (list_all (\<lambda>i. 0 \<le> i \<and> i < int (length (node_label fig))) (link_source fig) \<and>
      list_all (\<lambda>i. 0 \<le> i \<and> i < int (length (node_label fig))) (link_target fig))"

section \<open>Range parsing (\<open>archive/chart_script (3).py\<close>, lines 47-56)\<close>

text \<open>
  \<open>s.split(sep)\<close> for a one-character separator. The result is never the empty
  list, so the last case of the \<open>case\<close> is never taken.
\<close>

fun split_chr :: "char \<Rightarrow> string \<Rightarrow> string list" where
  "split_chr sep [] = [[]]"
| "split_chr sep (c # cs) =
     (case split_chr sep cs of
        p # ps \<Rightarrow> (if c = sep then [] # p # ps else (c # p) # ps)
      | [] \<Rightarrow> [[c]])"

text \<open>
  \<open>int(s)\<close> in base 10: whitespace around the literal is dropped, one sign may come
  first, and the digits may be grouped by single underscores. Anything else raises
  \<open>ValueError\<close>, and so does a literal of more than 4300 digits (the default limit
  of Python 3.11 and later). Below U+0100 the decimal digits are \<open>0\<close> to \<open>9\<close>.
\<close>

definition is_digit :: "char \<Rightarrow> bool" where
  "is_digit c = (48 \<le> (of_char c :: nat) \<and> (of_char c :: nat) \<le> 57)"

fun digits_ok :: "string \<Rightarrow> bool" where
  "digits_ok [] = False"
| "digits_ok [c] = is_digit c"
| "digits_ok (c # d # cs) =
     (is_digit c \<and> (if d = CHR ''_'' then digits_ok cs else digits_ok (d # cs)))"

definition digits_value :: "string \<Rightarrow> int" where
  "digits_value ds =
     foldl (\<lambda>acc c. if c = CHR ''_'' then acc else 10 * acc + (of_char c - 48)) 0 ds"

definition py_int :: "string \<Rightarrow> py_error + int" where
  "py_int s =
     (let t = strip s;
          neg = (t \<noteq> [] \<and> hd t = CHR ''-'');
          body = (if t \<noteq> [] \<and> (hd t = CHR ''-'' \<or> hd t = CHR ''+'') then tl t else t)
      in if digits_ok body \<and> length (filter is_digit body) \<le> 4300
         then Inr (if neg then - digits_value body else digits_value body)
         else Inl ValueError)"

text \<open>
  \<open>a, b = map(int, parts)\<close>: the items are converted one by one as the unpacking asks
  for them, a third item is asked for to see that there is none, and every way of
  failing is a \<open>ValueError\<close>.
\<close>

definition unpack2_int :: "string list \<Rightarrow> py_error + (int \<times> int)" where
  "unpack2_int parts =
     (case parts of
        [] \<Rightarrow> Inl ValueError
      | a # rest1 \<Rightarrow>
          (case py_int a of
             Inl e \<Rightarrow> Inl e
           | Inr x \<Rightarrow>
               (case rest1 of
                  [] \<Rightarrow> Inl ValueError
                | b # rest2 \<Rightarrow>
                    (case py_int b of
                       Inl e \<Rightarrow> Inl e
                     | Inr y \<Rightarrow>
                         (case rest2 of
                            [] \<Rightarrow> Inr (x, y)
                          | c # _ \<Rightarrow>
                              (case py_int c of
                                 Inl e \<Rightarrow> Inl e
                               | Inr _ \<Rightarrow> Inl ValueError))))))"

text \<open>
  Floats. A float is the real number it stands for. \<open>round53\<close> rounds an integer to
  53 significant bits, ties to even, which is how Python turns an integer into a
  float; \<open>n / 2\<close> for an integer \<open>n\<close> is that float halved, and it raises
  \<open>OverflowError\<close> when the rounded quotient would reach \<open>2 ^ 1024\<close>.
\<close>

function bitlen :: "int \<Rightarrow> nat" where
  "bitlen n = (if n \<le> 0 then 0 else Suc (bitlen (n div 2)))"
  by pat_completeness auto
termination
  by (relation "measure nat") auto

declare bitlen.simps [simp del]

definition round53 :: "int \<Rightarrow> int" where
  "round53 n =
     (let m = \<bar>n\<bar>;
          e = bitlen m - 53;
          q = m div 2 ^ e;
          r = m mod 2 ^ e;
          q' = (if 2 ^ e < 2 * r \<or> (2 * r = 2 ^ e \<and> odd q) then q + 1 else q)
      in sgn n * (q' * 2 ^ e))"

definition float_overflow :: "int \<Rightarrow> bool" where
  "float_overflow n = (2 ^ 1025 - 2 ^ 971 \<le> \<bar>n\<bar>)"

definition half_float :: "int \<Rightarrow> real" where
  "half_float n = real_of_int (round53 n) / 2"

text \<open>
  \<open>np.log10\<close> of a float: the logarithm of a positive number, \<open>-inf\<close> at zero and
  \<open>nan\<close> below (numpy warns and goes on). The logarithm is the real one: its
  rounding to a float is not modelled.
\<close>

datatype np_float = Finite real | NegInf | NaN_float

definition np_log10 :: "real \<Rightarrow> np_float" where
  "np_log10 x = (if 0 < x then Finite (log 10 x) else if x = 0 then NegInf else NaN_float)"

record range_summary =
  age_start :: int
  age_end :: int
  median_age :: real
  member_start :: int
  member_end :: int
  member_size_scaled :: np_float

text \<open>
  Lines 48-56 on the \<open>demographics\<close> string of one group, in the order of the
  script: the age pair (lines 48-49), its midpoint (line 50, which can overflow), the
  part after the first comma (line 53, \<open>IndexError\<close> when there is none), the member
  pair (lines 54-55) and its midpoint (line 56). \<open>parse_pairs\<close> is every step that can
  raise; \<open>split\<close> never returns the empty list, so its \<open>[0]\<close> is the head.
\<close>

definition parse_pairs :: "string \<Rightarrow> py_error + ((int \<times> int) \<times> (int \<times> int))" where
  "parse_pairs demographics =
     (let age_range = replace_str ''Ages '' [] (hd (split_chr CHR '','' demographics))
      in case unpack2_int (split_chr CHR ''-'' age_range) of
           Inl e \<Rightarrow> Inl e
         | Inr ages \<Rightarrow>
             if float_overflow (fst ages + snd ages) then Inl OverflowError
             else
               (case py_index (split_chr CHR '','' demographics) 1 of
                  Inl e \<Rightarrow> Inl e
                | Inr part \<Rightarrow>
                    (let member_info = strip part;
                         member_range = hd (split_chr CHR '' '' member_info)
                     in case unpack2_int (split_chr CHR ''-'' member_range) of
                          Inl e \<Rightarrow> Inl e
                        | Inr members \<Rightarrow>
                            if float_overflow (fst members + snd members)
                            then Inl OverflowError
                            else Inr (ages, members))))"

text \<open>Lines 50 and 56: the values of the two summaries once nothing has raised.\<close>

definition summarise :: "(int \<times> int) \<times> (int \<times> int) \<Rightarrow> range_summary" where
  "summarise p =
     \<lparr>age_start = fst (fst p), age_end = snd (fst p),
      median_age = half_float (fst (fst p) + snd (fst p)),
      member_start = fst (snd p), member_end = snd (snd p),
      member_size_scaled = np_log10 (half_float (fst (snd p) + snd (snd p)))\<rparr>"

definition parse_demographics :: "string \<Rightarrow> py_error + range_summary" where
  "parse_demographics demographics =
     (case parse_pairs demographics of Inl e \<Rightarrow> Inl e | Inr p \<Rightarrow> Inr (summarise p))"


text \<open>
  A numeric token is a string \<open>int\<close> accepts. A text contains two numeric tokens
  separated by a hyphen when some contiguous piece of it splits at its hyphens into
  exactly two such tokens.
\<close>

definition numeric_token :: "string \<Rightarrow> bool" where
  "numeric_token s = (case py_int s of Inl _ \<Rightarrow> False | Inr _ \<Rightarrow> True)"

definition hyphen_pair :: "string \<Rightarrow> bool" where
  "hyphen_pair seg =
     (case split_chr CHR ''-'' seg of
        [a, b] \<Rightarrow> numeric_token a \<and> numeric_token b
      | _ \<Rightarrow> False)"

definition contains_pair :: "string \<Rightarrow> bool" where
  "contains_pair text = list_ex hyphen_pair (sublists text)"

section \<open>Python values\<close>

text \<open>
  The values the dataset literals are made of: strings, integers, lists and
  dictionaries with string keys (in insertion order, as Python keeps them), and the
  \<open>nan\<close> pandas puts into a cell that has no value.
\<close>

datatype pyval =
    Str string
  | IntV int
  | NaN
  | List "pyval list"
  | Dict "(string \<times> pyval) list"

text \<open>\<open>str(n)\<close> for an integer.\<close>

function str_nat :: "nat \<Rightarrow> string" where
  "str_nat n =
     (if n < 10 then [''0123456789'' ! n]
      else str_nat (n div 10) @ [''0123456789'' ! (n mod 10)])"
  by pat_completeness auto
termination
  by (relation "measure id") auto

declare str_nat.simps [simp del]

definition str_int :: "int \<Rightarrow> string" where
  "str_int i = (if i < 0 then CHR ''-'' # str_nat (nat (- i)) else str_nat (nat i))"

text \<open>
  \<open>repr(s)\<close> for a string: double quotes when the string has a single quote and no
  double quote, single quotes otherwise; the quote in use and the backslash are
  escaped, and so are the characters that are not printable.
\<close>

definition hex_digit :: "nat \<Rightarrow> char" where
  "hex_digit d = ''0123456789abcdef'' ! (d mod 16)"

definition printable :: "char \<Rightarrow> bool" where
  "printable c =
     (let n = (of_char c :: nat) in 32 \<le> n \<and> \<not> (127 \<le> n \<and> n \<le> 160) \<and> n \<noteq> 173)"

definition escape_chr :: "char \<Rightarrow> char \<Rightarrow> string" where
  "escape_chr q c =
     (if c = q \<or> c = CHR 0x5C then [CHR 0x5C, c]
      else if c = CHR 0x09 then [CHR 0x5C, CHR ''t'']
      else if c = CHR 0x0A then [CHR 0x5C, CHR ''n'']
      else if c = CHR 0x0D then [CHR 0x5C, CHR ''r'']
      else if printable c then [c]
      else [CHR 0x5C, CHR ''x'', hex_digit (of_char c div 16), hex_digit (of_char c mod 16)])"

definition repr_str :: "string \<Rightarrow> string" where
  "repr_str s =
     (let q = (if CHR 0x27 \<in> set s \<and> CHR 0x22 \<notin> set s then CHR 0x22 else CHR 0x27)
      in q # concat (map (escape_chr q) s) @ [q])"

text \<open>\<open>sep.join(items)\<close> for strings.\<close>

fun join_str :: "string \<Rightarrow> string list \<Rightarrow> string" where
  "join_str sep [] = []"
| "join_str sep [s] = s"
| "join_str sep (s # t # ss) = s @ sep @ join_str sep (t # ss)"

text \<open>\<open>repr(v)\<close>, and \<open>str(v)\<close> as an f-string field \<open>{v}\<close> formats it.\<close>

fun py_repr :: "pyval \<Rightarrow> string" where
  "py_repr (Str s) = repr_str s"
| "py_repr (IntV i) = str_int i"
| "py_repr NaN = ''nan''"
| "py_repr (List vs) = ''['' @ join_str '', '' (map py_repr vs) @ '']''"
| "py_repr (Dict kvs) =
     ''{'' @ join_str '', '' (map (\<lambda>kv. repr_str (fst kv) @ '': '' @ py_repr (snd kv)) kvs) @ ''}''"

definition py_str :: "pyval \<Rightarrow> string" where
  "py_str v = (case v of Str s \<Rightarrow> s | _ \<Rightarrow> py_repr v)"





section \<open>The nested-record report (\<open>archive/script_1 (2).py\<close>, \<open>archive/script (2).py\<close>)\<close>



























section \<open>Tables\<close>

text \<open>
  A pandas \<open>DataFrame\<close> is the list of its columns in order, each a name with its
  cells; the row labels are the default \<open>0, 1, \<dots>\<close> throughout and are left out.
\<close>

type_synonym frame = "(string \<times> pyval list) list"

text \<open>
  \<open>pd.DataFrame(d)\<close> for a dictionary of lists: the lists must all have the same
  length, or construction raises \<open>ValueError\<close>.
\<close>

definition rectangular :: "(string \<times> pyval list) list \<Rightarrow> bool" where
  "rectangular d = list_all (\<lambda>c. length (snd c) = length (snd (hd d))) d"

definition DataFrame_columns :: "(string \<times> pyval list) list \<Rightarrow> py_error + frame" where
  "DataFrame_columns d = (if rectangular d then Inr d else Inl ValueError)"

text \<open>
  \<open>pd.DataFrame(rs)\<close> for a list of dictionaries: one column per key, in the order
  the keys first appear, and \<open>nan\<close> where a record has no such key.
\<close>

definition DataFrame_records :: "(string \<times> pyval) list list \<Rightarrow> frame" where
  "DataFrame_records rs =
     map (\<lambda>k. (k, map (\<lambda>r. case map_of r k of Some v \<Rightarrow> v | None \<Rightarrow> NaN) rs))
         (rev (remdups (rev (concat (map (map fst) rs)))))"

definition nrows :: "frame \<Rightarrow> nat" where
  "nrows df = (case df of [] \<Rightarrow> 0 | c # _ \<Rightarrow> length (snd c))"

text \<open>\<open>df[c]\<close> read, and \<open>df[c] = column\<close> for a column computed from \<open>df\<close> itself.\<close>

definition get_col :: "frame \<Rightarrow> string \<Rightarrow> py_error + pyval list" where
  "get_col df c = (case map_of df c of None \<Rightarrow> Inl KeyError | Some vs \<Rightarrow> Inr vs)"

definition set_col :: "frame \<Rightarrow> string \<Rightarrow> pyval list \<Rightarrow> frame" where
  "set_col df c vs = AList.update c vs df"

text \<open>
  The \<open>.str\<close> accessor is refused (\<open>AttributeError\<close>) on a column of numbers; on any
  other column its methods work on the strings and give \<open>nan\<close> for the other cells.
  Their results are columns on which \<open>.str\<close> is allowed again.
\<close>

definition str_accessor :: "pyval list \<Rightarrow> py_error + pyval list" where
  "str_accessor col =
     (if col \<noteq> [] \<and> list_all (\<lambda>v. case v of IntV _ \<Rightarrow> True | NaN \<Rightarrow> True | _ \<Rightarrow> False) col
      then Inl AttributeError else Inr col)"

definition str_replace :: "string \<Rightarrow> string \<Rightarrow> pyval list \<Rightarrow> pyval list" where
  "str_replace old new col =
     map (\<lambda>v. case v of Str s \<Rightarrow> Str (replace_str old new s) | _ \<Rightarrow> NaN) col"

definition str_strip :: "pyval list \<Rightarrow> pyval list" where
  "str_strip col = map (\<lambda>v. case v of Str s \<Rightarrow> Str (strip s) | _ \<Rightarrow> NaN) col"

text \<open>\<open>column.apply(f)\<close>: \<open>f\<close> on each cell in order, stopping at the first exception.\<close>

fun apply_col :: "(pyval \<Rightarrow> py_error + pyval) \<Rightarrow> pyval list \<Rightarrow> py_error + pyval list" where
  "apply_col f [] = Inr []"
| "apply_col f (v # vs) =
     (case f v of
        Inl e \<Rightarrow> Inl e
      | Inr w \<Rightarrow> (case apply_col f vs of Inl e \<Rightarrow> Inl e | Inr ws \<Rightarrow> Inr (w # ws)))"

text \<open>
  The two lambdas of \<open>docs/brainstorming_MCP/chart_script.py\<close> on any cell: \<open>len\<close>
  raises \<open>TypeError\<close> on a number, a list can be sliced but not added to a string,
  and a dictionary cannot be sliced.
\<close>

definition lambda_15 :: "pyval \<Rightarrow> py_error + pyval" where
  "lambda_15 x =
     (case x of
        Str s \<Rightarrow> Inr (Str (truncate_plain 15 s))
      | List vs \<Rightarrow> Inr (List (truncate_plain 15 vs))
      | Dict kvs \<Rightarrow> (if length kvs > 15 then Inl TypeError else Inr x)
      | _ \<Rightarrow> Inl TypeError)"

definition lambda_50 :: "pyval \<Rightarrow> py_error + pyval" where
  "lambda_50 x =
     (case x of
        Str s \<Rightarrow> Inr (Str (truncate_ellipsis 50 s))
      | List vs \<Rightarrow> (if length vs > 50 then Inl TypeError else Inr x)
      | Dict kvs \<Rightarrow> (if length kvs > 50 then Inl TypeError else Inr x)
      | _ \<Rightarrow> Inl TypeError)"

text \<open>
  \<open>df.to_csv(path, index=False)\<close>, as the records of the file: the header with the
  column names, then one record per row with each cell as text (a missing value as the
  empty field). Quoting a field that holds a comma is the serializer's business and
  is undone by any CSV reader, so the file is kept as fields.
\<close>

definition csv_field :: "pyval \<Rightarrow> string" where
  "csv_field v = (case v of NaN \<Rightarrow> [] | _ \<Rightarrow> py_str v)"

definition to_csv :: "frame \<Rightarrow> string list list" where
  "to_csv df =
     map fst df # map (\<lambda>i. map (\<lambda>c. csv_field (snd c ! i)) df) [0..<nrows df]"

section \<open>Derived label columns\<close>

text \<open>\<open>docs/brainstorming_MCP/chart_script.py\<close>, lines 135-136.\<close>

definition add_Server_Short :: "frame \<Rightarrow> py_error + frame" where
  "add_Server_Short df =
     (case get_col df ''Server Name'' of
        Inl e \<Rightarrow> Inl e
      | Inr names \<Rightarrow>
          (case str_accessor names of
             Inl e \<Rightarrow> Inl e
           | Inr names \<Rightarrow>
               (let df1 = set_col df ''Server_Short''
                            (str_strip (str_replace ''MCP'' []
                               (str_replace ''MCP Server'' [] names)))
                in case get_col df1 ''Server_Short'' of
                     Inl e \<Rightarrow> Inl e
                   | Inr short \<Rightarrow>
                       (case apply_col lambda_15 short of
                          Inl e \<Rightarrow> Inl e
                        | Inr short' \<Rightarrow> Inr (set_col df1 ''Server_Short'' short')))))"

text \<open>Lines 139-140.\<close>

definition add_truncated :: "string \<Rightarrow> string \<Rightarrow> frame \<Rightarrow> py_error + frame" where
  "add_truncated target source df =
     (case get_col df source of
        Inl e \<Rightarrow> Inl e
      | Inr col \<Rightarrow>
          (case apply_col lambda_50 col of
             Inl e \<Rightarrow> Inl e
           | Inr col' \<Rightarrow> Inr (set_col df target col')))"

definition mcp_label_columns :: "frame \<Rightarrow> py_error + frame" where
  "mcp_label_columns df =
     (case add_Server_Short df of
        Inl e \<Rightarrow> Inl e
      | Inr df1 \<Rightarrow>
          (case add_truncated ''Features_Short'' ''Key Features'' df1 of
             Inl e \<Rightarrow> Inl e
           | Inr df2 \<Rightarrow> add_truncated ''Use_Cases_Short'' ''Best Use Cases'' df2))"

text \<open>\<open>archive/chart_script.py\<close>, line 20.\<close>

definition add_Short_Model :: "frame \<Rightarrow> py_error + frame" where
  "add_Short_Model df =
     (case get_col df ''Model'' of
        Inl e \<Rightarrow> Inl e
      | Inr models \<Rightarrow>
          (case str_accessor models of
             Inl e \<Rightarrow> Inl e
           | Inr models \<Rightarrow>
               Inr (set_col df ''Short_Model''
                      (str_replace '' & 3n'' []
                        (str_replace ''-Lite'' ''L''
                          (str_replace ''Flash'' ''F''
                            (str_replace ''Gemma '' ''Ga''
                              (str_replace ''Gemini '' ''G'' models))))))))"

text \<open>The records of the two scripts, lines 5-126 and 7-15.\<close>

definition mcp_data :: "(string \<times> pyval) list list" where
  "mcp_data =
   [
     [(''Server Name'', Str ''Discord MCP Server''),
      (''Category'', Str ''Discord Integration''),
      (''Key Features'', Str ''Send messages, read history, manage channels, user management, reactions''),
      (''Best Use Cases'', Str ''Direct Discord bot control, server management, automated responses''),
      (''Installation Complexity'', Str ''Medium''), (''GitHub Stars'', Str ''150+'')],
     [(''Server Name'', Str ''Web Search (Brave)''), (''Category'', Str ''Web Search''),
      (''Key Features'', Str ''Privacy-focused search, real-time results, web scraping''),
      (''Best Use Cases'', Str ''Information retrieval, fact-checking, research queries''),
      (''Installation Complexity'', Str ''Easy''), (''GitHub Stars'', Str ''200+'')],
     [(''Server Name'', Str ''GitHub MCP Server''),
      (''Category'', Str ''Development Tools''),
      (''Key Features'', Str ''Repository management, code search, issue tracking, PRs''),
      (''Best Use Cases'', Str ''Code assistance, project management, developer workflows''),
      (''Installation Complexity'', Str ''Easy''), (''GitHub Stars'', Str ''500+'')],
     [(''Server Name'', Str ''Memory/Knowledge Graph''),
      (''Category'', Str ''Memory & Knowledge''),
      (''Key Features'', Str ''Persistent memory, context retention, knowledge graphs''),
      (''Best Use Cases'', Str ''Long-term conversations, user preferences, project continuity''),
      (''Installation Complexity'', Str ''Medium''), (''GitHub Stars'', Str ''300+'')],
     [(''Server Name'', Str ''PostgreSQL MCP''), (''Category'', Str ''Database''),
      (''Key Features'', Str ''Database queries, schema inspection, data analysis''),
      (''Best Use Cases'', Str ''Data-driven responses, analytics, user data management''),
      (''Installation Complexity'', Str ''Medium''), (''GitHub Stars'', Str ''180+'')],
     [(''Server Name'', Str ''File System MCP''), (''Category'', Str ''File Operations''),
      (''Key Features'', Str ''File read/write, directory management, secure access''),
      (''Best Use Cases'', Str ''Document processing, file management, content generation''),
      (''Installation Complexity'', Str ''Easy''), (''GitHub Stars'', Str ''250+'')],
     [(''Server Name'', Str ''Notion MCP''), (''Category'', Str ''Productivity''),
      (''Key Features'', Str ''Database management, page creation, content organization''),
      (''Best Use Cases'', Str ''Knowledge management, documentation, project tracking''),
      (''Installation Complexity'', Str ''Medium''), (''GitHub Stars'', Str ''220+'')],
     [(''Server Name'', Str ''Slack MCP''), (''Category'', Str ''Communication''),
      (''Key Features'', Str ''Message sending, channel management, workspace integration''),
      (''Best Use Cases'', Str ''Team communication, notifications, workflow automation''),
      (''Installation Complexity'', Str ''Medium''), (''GitHub Stars'', Str ''190+'')],
     [(''Server Name'', Str ''OpenAI Tools MCP''), (''Category'', Str ''AI Tools''),
      (''Key Features'', Str ''Image generation, text processing, AI model access''),
      (''Best Use Cases'', Str ''Content creation, AI-powered responses, multimedia generation''),
      (''Installation Complexity'', Str ''Easy''), (''GitHub Stars'', Str ''400+'')],
     [(''Server Name'', Str ''Perplexity MCP''), (''Category'', Str ''AI Search''),
      (''Key Features'', Str ''Real-time web search, AI-powered research, citations''),
      (''Best Use Cases'', Str ''Research assistance, fact-checking, current events''),
      (''Installation Complexity'', Str ''Easy''), (''GitHub Stars'', Str ''160+'')],
     [(''Server Name'', Str ''Weather MCP''), (''Category'', Str ''Data Services''),
      (''Key Features'', Str ''Current weather, forecasts, location-based data''),
      (''Best Use Cases'', Str ''Weather queries, location services, environmental data''),
      (''Installation Complexity'', Str ''Easy''), (''GitHub Stars'', Str ''120+'')],
     [(''Server Name'', Str ''Google Calendar MCP''), (''Category'', Str ''Productivity''),
      (''Key Features'', Str ''Event management, scheduling, calendar integration''),
      (''Best Use Cases'', Str ''Meeting scheduling, reminders, calendar queries''),
      (''Installation Complexity'', Str ''Medium''), (''GitHub Stars'', Str ''140+'')],
     [(''Server Name'', Str ''Redis MCP''), (''Category'', Str ''Database''),
      (''Key Features'', Str ''Key-value storage, caching, real-time data''),
      (''Best Use Cases'', Str ''Session management, caching, real-time features''),
      (''Installation Complexity'', Str ''Medium''), (''GitHub Stars'', Str ''110+'')],
     [(''Server Name'', Str ''Docker MCP''), (''Category'', Str ''DevOps''),
      (''Key Features'', Str ''Container management, deployment, scaling''),
      (''Best Use Cases'', Str ''DevOps automation, container orchestration, deployment''),
      (''Installation Complexity'', Str ''Hard''), (''GitHub Stars'', Str ''180+'')],
     [(''Server Name'', Str ''Stripe MCP''), (''Category'', Str ''Finance''),
      (''Key Features'', Str ''Payment processing, subscription management, billing''),
      (''Best Use Cases'', Str ''E-commerce, payment queries, subscription management''),
      (''Installation Complexity'', Str ''Medium''), (''GitHub Stars'', Str ''200+'')]]"

definition rate_limit_data :: "(string \<times> pyval) list list" where
  "rate_limit_data =
   [
     [(''Model'', Str ''Gemini 2.5 Flash''), (''RPM'', IntV 10), (''TPM'', IntV 250000),
      (''RPD'', IntV 250), (''Status'', Str ''Current''), (''Available_Free'', Str ''Yes'')],
     [(''Model'', Str ''Gemini 2.5 Flash-Lite''), (''RPM'', IntV 15),
      (''TPM'', IntV 250000), (''RPD'', IntV 1000), (''Status'', Str ''Current''),
      (''Available_Free'', Str ''Yes'')],
     [(''Model'', Str ''Gemini 2.0 Flash''), (''RPM'', IntV 15), (''TPM'', IntV 1000000),
      (''RPD'', IntV 200), (''Status'', Str ''Current''), (''Available_Free'', Str ''Yes'')],
     [(''Model'', Str ''Gemini 2.0 Flash-Lite''), (''RPM'', IntV 30),
      (''TPM'', IntV 1000000), (''RPD'', IntV 200), (''Status'', Str ''Current''),
      (''Available_Free'', Str ''Yes'')],
     [(''Model'', Str ''Gemini 1.5 Flash''), (''RPM'', IntV 15), (''TPM'', IntV 250000),
      (''RPD'', IntV 50), (''Status'', Str ''Deprecated''),
      (''Available_Free'', Str ''Yes'')],
     [(''Model'', Str ''Gemini 1.5 Flash-8B''), (''RPM'', IntV 15), (''TPM'', IntV 250000),
      (''RPD'', IntV 50), (''Status'', Str ''Deprecated''),
      (''Available_Free'', Str ''Yes'')],
     [(''Model'', Str ''Gemma 3 & 3n''), (''RPM'', IntV 30), (''TPM'', IntV 15000),
      (''RPD'', IntV 14400), (''Status'', Str ''Current''),
      (''Available_Free'', Str ''Limited'')]]"

section \<open>Colour assignment\<close>











section \<open>The CSV-exporting scripts\<close>

text \<open>
  What a run of a script leaves behind: the mappings given to \<open>pd.DataFrame\<close>, in
  order, and the files written, each with its records. The tables printed on standard
  output are left out.
\<close>

record run_log =
  frames_built :: "(string \<times> pyval list) list list"
  csv_written :: "(string \<times> string list list) list"

definition build :: "(string \<times> pyval list) list \<Rightarrow> run_log \<Rightarrow> py_error + (frame \<times> run_log)" where
  "build d lg =
     (case DataFrame_columns d of
        Inl e \<Rightarrow> Inl e
      | Inr df \<Rightarrow> Inr (df, lg\<lparr>frames_built := frames_built lg @ [d]\<rparr>))"

definition export :: "frame \<Rightarrow> string \<Rightarrow> run_log \<Rightarrow> run_log" where
  "export df path lg = lg\<lparr>csv_written := csv_written lg @ [(path, to_csv df)]\<rparr>"

text \<open>\<open>archive/script.py\<close>: the literals of lines 4-21 and 36-57.\<close>

definition script_data :: "(string \<times> pyval list) list" where
  "script_data =
   [
     (''Model'',
       [Str ''Gemini 2.5 Pro'', Str ''Gemini 2.5 Flash'', Str ''Gemini 2.5 Flash-Lite'',
        Str ''Gemini 2.0 Flash'', Str ''Gemini 2.0 Flash-Lite'', Str ''Gemini 1.5 Flash'',
        Str ''Gemini 1.5 Flash-8B'', Str ''Gemma 3 & 3n'']),
     (''RPM (Requests/Min)'',
       [IntV 5, IntV 10, IntV 15, IntV 15, IntV 30, IntV 15, IntV 15, IntV 30]),
     (''TPM (Tokens/Min)'',
       [Str ''250,000'', Str ''250,000'', Str ''250,000'', Str ''1,000,000'',
        Str ''1,000,000'', Str ''250,000'', Str ''250,000'', Str ''15,000'']),
     (''RPD (Requests/Day)'',
       [IntV 100, IntV 250, IntV 1000, IntV 200, IntV 200, IntV 50, IntV 50, IntV 14400]),
     (''Input Cost'',
       [Str ''Not Available'', Str ''Free'', Str ''Free'', Str ''Free'', Str ''Free'',
        Str ''Free'', Str ''Free'', Str ''Free'']),
     (''Output Cost'',
       [Str ''Not Available'', Str ''Free'', Str ''Free'', Str ''Free'', Str ''Free'',
        Str ''Free'', Str ''Free'', Str ''Free'']),
     (''Best For Chatbots'',
       [Str ''No (Not available on free)'', Str ''Yes'', Str ''Yes'', Str ''Yes'',
        Str ''Yes'', Str ''Yes (Deprecated)'', Str ''Yes (Deprecated)'',
        Str ''Limited (Low TPM)''])]"

definition script_features :: "(string \<times> pyval list) list" where
  "script_features =
   [
     (''Feature'',
       [Str ''Free Tier Available'', Str ''Best Models for Chatbots'',
        Str ''Multimodal Support'', Str ''Context Window'', Str ''Function Calling'',
        Str ''Grounding with Search'', Str ''Live API Support'', Str ''Data Usage Policy'']),
     (''Details'',
       [Str ''Yes - Multiple models available for free'',
        Str ''Gemini 2.5 Flash, 2.0 Flash, 2.0 Flash-Lite'',
        Str ''Text, Image, Audio, Video support'',
        Str ''Up to 1M tokens (varies by model)'', Str ''Available on most models'',
        Str ''Free tier: 500 requests/day'', Str ''Available with session limits'',
        Str ''Used to improve Google products on free tier''])]"


text \<open>\<open>archive/script (3).py\<close>: the literals of lines 5-56, 59-104 and 116-124.\<close>

definition feature_data :: "(string \<times> pyval list) list" where
  "feature_data =
   [
     (''Feature Category'',
       [Str ''Response Style'', Str ''Response Style'', Str ''Response Style'',
        Str ''Response Style'', Str ''Memory System'', Str ''Memory System'',
        Str ''Memory System'', Str ''Memory System'', Str ''Learning Focus'',
        Str ''Learning Focus'', Str ''Learning Focus'', Str ''Learning Focus'',
        Str ''Fact-Checking'', Str ''Fact-Checking'', Str ''Fact-Checking'',
        Str ''Fact-Checking'', Str ''Multimodal Features'', Str ''Multimodal Features'',
        Str ''Multimodal Features'', Str ''Multimodal Features'', Str ''Automation Level'',
        Str ''Automation Level'', Str ''Automation Level'', Str ''Automation Level'',
        Str ''Engagement Features'', Str ''Engagement Features'',
        Str ''Engagement Features'', Str ''Engagement Features'', Str ''Privacy Level'',
        Str ''Privacy Level'', Str ''Privacy Level'', Str ''Privacy Level'']),
     (''Gaming Communities'',
       [Str ''Fast, casual, meme-friendly'', Str ''Short-term game sessions'',
        Str ''Gaming strategies and tips'', Str ''Game stats and meta updates'',
        Str ''Voice message analysis'', Str ''High - automated moderation'',
        Str ''XP tracking, tournaments'', Str ''Standard - public channels'',
        Str ''Educational Groups'', Str ''Patient, encouraging, formal'',
        Str ''Long-term academic progress'', Str ''Study habits and knowledge gaps'',
        Str ''Academic sources priority'', Str ''Document and PDF analysis'',
        Str ''Medium - scheduled assistance'', Str ''Study groups, progress tracking'',
        Str ''Enhanced - student data protection'']),
     (''Content Creators'',
       [Str ''Brand-aligned, engaging'', Str ''Content performance history'',
        Str ''Audience preferences patterns'', Str ''Trend and engagement data'',
        Str ''Image and video analysis'', Str ''Medium - content scheduling'',
        Str ''Analytics dashboards, growth tracking'',
        Str ''Standard - creator-controlled'', Str ''Professional Communities'',
        Str ''Professional, concise, helpful'', Str ''Project and meeting context'',
        Str ''Work patterns and efficiency'', Str ''Business and industry sources'',
        Str ''Document collaboration features'', Str ''Low - human oversight required'',
        Str ''Meeting summaries, task management'', Str ''High - enterprise compliance''])]"

definition script_3_data :: "(string \<times> pyval list) list" where
  "script_3_data =
   [
     (''Feature Category'',
       [Str ''Response Style'', Str ''Memory System'', Str ''Learning Focus'',
        Str ''Fact-Checking Priority'', Str ''Multimodal Features'',
        Str ''Automation Level'', Str ''Engagement Features'', Str ''Privacy Level'']),
     (''Gaming Communities'',
       [Str ''Fast, casual, meme-friendly'',
        Str ''Short-term game sessions and player stats'',
        Str ''Gaming strategies, tips, and meta updates'',
        Str ''Game stats and competitive data priority'',
        Str ''Voice message analysis, game screenshots'',
        Str ''High - automated moderation and events'',
        Str ''XP tracking, leaderboards, tournaments'',
        Str ''Standard - public gaming channels'']),
     (''Educational Groups'',
       [Str ''Patient, encouraging, formal tone'',
        Str ''Long-term academic progress tracking'',
        Str ''Study habits and knowledge gap identification'',
        Str ''Academic sources and educational content priority'',
        Str ''Document/PDF analysis, study materials'',
        Str ''Medium - scheduled study assistance'',
        Str ''Study groups, progress tracking, quizzes'',
        Str ''Enhanced - student data protection'']),
     (''Content Creators'',
       [Str ''Brand-aligned, engaging, promotional'',
        Str ''Content performance and audience history'',
        Str ''Audience preferences and engagement patterns'',
        Str ''Trend data and content accuracy verification'',
        Str ''Image/video analysis, content optimization'',
        Str ''Medium - content scheduling and promotion'',
        Str ''Analytics dashboards, growth tracking, feedback'',
        Str ''Standard - creator-controlled privacy'']),
     (''Professional Communities'',
       [Str ''Professional, concise, business-focused'',
        Str ''Project context and meeting history'',
        Str ''Work patterns and productivity optimization'',
        Str ''Business/industry sources and compliance data'',
        Str ''Document collaboration, presentation analysis'',
        Str ''Low - human oversight for important decisions'',
        Str ''Meeting summaries, task management, networking'',
        Str ''High - enterprise compliance and security''])]"

definition summary_stats :: "(string \<times> pyval list) list" where
  "summary_stats =
   [
     (''User Group'',
       [Str ''Gaming Communities'', Str ''Educational Groups'', Str ''Content Creators'',
        Str ''Professional Communities'']),
     (''Typical Age Range'',
       [Str ''16-34'', Str ''16-25'', Str ''18-35'', Str ''25-45'']),
     (''Server Size Range'',
       [Str ''50-5,000'', Str ''20-500'', Str ''100-10,000'', Str ''50-1,000'']),
     (''Daily Active %'',
       [Str ''60-80%'', Str ''40-60%'', Str ''50-70%'', Str ''30-50%'']),
     (''Voice Usage'',
       [Str ''Very High'', Str ''Medium'', Str ''Medium-High'', Str ''Low-Medium'']),
     (''Peak Activity'',
       [Str ''Evenings/Weekends'', Str ''Study Hours'', Str ''Content Release Times'',
        Str ''Business Hours'']),
     (''Primary Use Case'',
       [Str ''Entertainment/Competition'', Str ''Learning/Collaboration'',
        Str ''Community Building'', Str ''Professional Work''])]"

text \<open>Lines 106-132: \<open>feature_data\<close> is assigned at line 5 and not used again.\<close>

definition script_3_run :: "py_error + run_log" where
  "script_3_run =
     (case build script_3_data \<lparr>frames_built = [], csv_written = []\<rparr> of
        Inl e \<Rightarrow> Inl e
      | Inr (df, log1) \<Rightarrow>
          (let log2 = export df ''discord_bot_feature_customization.csv'' log1
           in case build summary_stats log2 of
                Inl e \<Rightarrow> Inl e
              | Inr (summary_df, log3) \<Rightarrow>
                  Inr (export summary_df ''discord_user_group_demographics.csv'' log3)))"


section \<open>Properties of label truncation\<close>

lemma length_truncate_plain: "length (truncate_plain n s) \<le> n"
  by (simp add: truncate_plain_def)

lemma length_truncate_ellipsis:
  "length (truncate_ellipsis n s) = (if n < length s then n + 3 else length s)"
  by (simp add: truncate_ellipsis_def)

lemma truncate_plain_idem: "truncate_plain n (truncate_plain n s) = truncate_plain n s"
  by (simp add: truncate_plain_def)

lemma truncate_ellipsis_idem:
  "truncate_ellipsis n (truncate_ellipsis n s) = truncate_ellipsis n s"
  by (simp add: truncate_ellipsis_def)

text \<open>
  The part of C1 the code keeps: the plain truncation never returns more than its
  limit, so the \<open>Server_Short\<close> and \<open>group_short\<close> labels have at most 15 characters.
\<close>

lemma plain_labels_within_limit:
  "length (truncate_plain n s) \<le> n \<and>
   length (Server_Short name) \<le> 15 \<and>
   length (group_short user_group) \<le> 15"
  by (simp add: length_truncate_plain Server_Short_def group_short_def)

text \<open>
  C1: the truncated result is never longer than the limit, the variant with the
  ellipsis marker included. The code breaks this in the variant with the marker,
  which cuts at 50 and then appends the three dots without reserving room for them.
  The first \<open>Key Features\<close> string of the dataset has 72 characters; its
  \<open>Features_Short\<close> label is the first 50 of them and the dots, 53 characters, over
  the limit of 50 the lambda tests for and over the limit of 15 characters that the
  comment above lines 139-140 states. \<open>Use_Cases_Short\<close> is the same lambda.
\<close>

theorem C1_features_short_exceeds_limit:
  "Features_Short
     ''Send messages, read history, manage channels, user management, reactions'' =
     ''Send messages, read history, manage channels, user...'' \<and>
   length (Features_Short
     ''Send messages, read history, manage channels, user management, reactions'') = 53 \<and>
   \<not> length (Features_Short
     ''Send messages, read history, manage channels, user management, reactions'') \<le> 50 \<and>
   \<not> length (Use_Cases_Short
     ''Direct Discord bot control, server management, automated responses'') \<le> 50"
  by (simp add: Features_Short_def Use_Cases_Short_def truncate_ellipsis_def)

text \<open>
  C5: truncating an already truncated string with the same limit changes nothing,
  for the plain truncation and for the one that appends the marker (whose result,
  cut again at \<open>n\<close>, loses the marker and gets it back).
\<close>

theorem C5_truncation_idempotent:
  "truncate_plain n (truncate_plain n s) = truncate_plain n s \<and>
   truncate_ellipsis n (truncate_ellipsis n x) = truncate_ellipsis n x \<and>
   Features_Short (Features_Short x) = Features_Short x \<and>
   Use_Cases_Short (Use_Cases_Short x) = Use_Cases_Short x"
  by (simp add: truncate_plain_idem truncate_ellipsis_idem Features_Short_def Use_Cases_Short_def)

section \<open>Properties of the flow graph\<close>

lemma py_range_5: "py_range 5 = [0, 1, 2, 3, 4]"
  by (simp add: py_range_def upt_conv_Cons)

lemma node_colors_value: "node_colors = Inr (colors @ colors @ colors)"
  by (simp add: node_colors_def py_range_5 py_index_def colors_def)

lemma assemble_flow_value:
  "assemble_flow =
     \<lparr>labels = [''Text Input'', ''Images Input'', ''Audio Input'', ''Video Input'',
                ''Documents Input'', ''NLP Process'', ''Vision Process'', ''Audio Process'',
                ''Video Process'', ''Doc Process'', ''Smart Chat'', ''Visual Bot'',
                ''Voice Bot'', ''Media Bot'', ''Study Bot''],
      sources = [0, 5, 1, 6, 2, 7, 3, 8, 4, 9],
      targets = [5, 10, 6, 11, 7, 12, 8, 13, 9, 14],
      link_values = [10, 10, 10, 10, 10, 10, 10, 10, 10, 10]\<rparr>"
  by (simp add: assemble_flow_def input_types_def flow_init_def input_label_step_def
      processing_label_step_def output_label_step_def connect_step_def py_range_5)

text \<open>
  C2: with 3 stages of 5 items the assembly gives 15 node labels and 10 links, that is
  items per stage times stages minus one. Node \<open>k\<close> is item \<open>k mod 5\<close> of stage
  \<open>k div 5\<close>; every link goes from an item of one stage to the item at the same
  position in the next stage, and both of its ends lie in \<open>[0, 15)\<close>.
\<close>

theorem C2_flow_graph:
  "length (labels assemble_flow) = 3 * 5 \<and>
   length (sources assemble_flow) = 5 * (3 - 1) \<and>
   length (targets assemble_flow) = 5 * (3 - 1) \<and>
   length (link_values assemble_flow) = 5 * (3 - 1) \<and>
   list_all (\<lambda>(s, t). 0 \<le> s \<and> s < 15 \<and> 0 \<le> t \<and> t < 15 \<and>
                       t div 5 = s div 5 + 1 \<and> t mod 5 = s mod 5)
     (zip (sources assemble_flow) (targets assemble_flow))"
  by (simp add: assemble_flow_value)

text \<open>
  C4, as stated: lists whose links point outside the node labels are stopped by a
  validation step before the renderer. There is no such step: with one node label and
  a link from node 0 to node 7 the figure is built and handed on, dangling link
  included.
\<close>

theorem C4_dangling_link_reaches_renderer:
  "make_figure \<lparr>labels = [''Text Input''], sources = [0], targets = [7], link_values = [10]\<rparr> =
     Inr \<lparr>node_label = [''Text Input''], node_color = colors @ colors @ colors,
          link_source = [0], link_target = [7], link_value = [10],
          link_color = [''rgba(31, 184, 205, 0.2)'']\<rparr> \<and>
   \<not> links_in_bounds
       \<lparr>node_label = [''Text Input''], node_color = colors @ colors @ colors,
        link_source = [0], link_target = [7], link_value = [10],
        link_color = [''rgba(31, 184, 205, 0.2)'']\<rparr>"
  by (simp add: make_figure_def node_colors_value links_in_bounds_def py_range_def
      link_color_at_def)

text \<open>
  C4, amended: the script checks nothing between assembling the lists and the
  renderer. Whatever lists it is given, the figure construction succeeds and passes
  the labels, sources, targets and values on as they are. For the lists the script
  assembles itself, every link index lies within the node labels.
\<close>

theorem C4_lists_reach_renderer_unchecked:
  "(\<exists>fig. make_figure st = Inr fig \<and> node_label fig = labels st \<and>
          link_source fig = sources st \<and> link_target fig = targets st \<and>
          link_value fig = link_values st) \<and>
   (\<exists>fig. sankey_script = Inr fig \<and> links_in_bounds fig)"
  by (simp add: make_figure_def node_colors_value sankey_script_def links_in_bounds_def
      assemble_flow_value)

section \<open>Properties of range parsing\<close>

lemma split_chr_nonempty: "split_chr sep s \<noteq> []"
  by (induction s) (auto split: list.splits)



lemma split_chr_no_sep: "p \<in> set (split_chr sep s) \<Longrightarrow> sep \<notin> set p"
proof (induction s arbitrary: p)
  case Nil
  then show ?case by simp
next
  case (Cons c cs)
  obtain q qs where q: "split_chr sep cs = q # qs"
    using split_chr_nonempty [of sep cs] by (cases "split_chr sep cs") auto
  with Cons show ?case
    by (cases "c = sep") auto
qed

lemma split_chr_join: "split_chr sep s = p # ps \<Longrightarrow> s = p @ concat (map ((#) sep) ps)"
proof (induction s arbitrary: p ps)
  case Nil
  then show ?case by simp
next
  case (Cons c cs)
  obtain q qs where q: "split_chr sep cs = q # qs"
    using split_chr_nonempty [of sep cs] by (cases "split_chr sep cs") auto
  from Cons.IH [OF q] have cs: "q @ concat (map ((#) sep) qs) = cs"
    by simp
  show ?case
  proof (cases "c = sep")
    case True
    with Cons.prems q have "p = []" "ps = q # qs" by auto
    with True cs show ?thesis by simp
  next
    case False
    with Cons.prems q have "p = c # q" "ps = qs" by auto
    with cs show ?thesis by simp
  qed
qed

lemma split_chr_no_sep_id: "sep \<notin> set s \<Longrightarrow> split_chr sep s = [s]"
  by (induction s) auto

lemma split_chr_append: "sep \<notin> set a \<Longrightarrow> split_chr sep (a @ sep # b) = a # split_chr sep b"
  by (induction a) (auto simp: split_chr_nonempty split: list.splits)

lemma hyphen_pair_iff:
  "hyphen_pair seg \<longleftrightarrow>
     (\<exists>a b. seg = a @ CHR ''-'' # b \<and> CHR ''-'' \<notin> set a \<and> CHR ''-'' \<notin> set b \<and>
            numeric_token a \<and> numeric_token b)"
proof
  assume "hyphen_pair seg"
  then obtain a b where ab: "split_chr CHR ''-'' seg = [a, b]" "numeric_token a" "numeric_token b"
    by (auto simp: hyphen_pair_def split: list.splits)
  from ab(1) have "seg = a @ CHR ''-'' # b"
    using split_chr_join [of "CHR ''-''" seg a "[b]"] by simp
  moreover have "CHR ''-'' \<notin> set a" "CHR ''-'' \<notin> set b"
    using split_chr_no_sep [of a "CHR ''-''" seg] split_chr_no_sep [of b "CHR ''-''" seg] ab(1)
    by auto
  ultimately show "\<exists>a b. seg = a @ CHR ''-'' # b \<and> CHR ''-'' \<notin> set a \<and> CHR ''-'' \<notin> set b \<and>
            numeric_token a \<and> numeric_token b"
    using ab by blast
next
  assume "\<exists>a b. seg = a @ CHR ''-'' # b \<and> CHR ''-'' \<notin> set a \<and> CHR ''-'' \<notin> set b \<and>
            numeric_token a \<and> numeric_token b"
  then show "hyphen_pair seg"
    by (auto simp: hyphen_pair_def split_chr_append split_chr_no_sep_id)
qed

text \<open>
  What \<open>contains_pair\<close> says, without the enumeration of the pieces: somewhere in
  the text stand two strings that \<open>int\<close> accepts, with one hyphen between them.
\<close>

lemma contains_pair_iff:
  "contains_pair s \<longleftrightarrow>
     (\<exists>a b. sublist (a @ CHR ''-'' # b) s \<and> CHR ''-'' \<notin> set a \<and> CHR ''-'' \<notin> set b \<and>
            numeric_token a \<and> numeric_token b)"
  unfolding contains_pair_def list_ex_iff hyphen_pair_iff Bex_def in_set_sublists
  by blast
















text \<open>The overflow of line 50 is reached: the age pair 1 and a number of 310 digits.\<close>

lemma midpoint_overflow_pairs:
  "parse_pairs (''1Ages -'' @ replicate 310 CHR ''9'') = Inl OverflowError"
  by code_simp

lemma midpoint_overflow_example:
  "parse_demographics (''1Ages -'' @ replicate 310 CHR ''9'') = Inl OverflowError"
  by (simp only: parse_demographics_def midpoint_overflow_pairs sum.case)

section \<open>Properties of the colour assignment\<close>











section \<open>Properties of the report\<close>




















section \<open>Properties of the tables and the exported files\<close>

lemma rectangular_same_length:
  assumes "list_all (\<lambda>c. length (snd c) = N) d"
  shows "rectangular d"
proof (cases d)
  case Nil
  then show ?thesis by (simp add: rectangular_def)
next
  case (Cons c cs)
  with assms have "length (snd (hd d)) = N" by simp
  with assms show ?thesis
    by (simp add: rectangular_def list_all_iff)
qed



lemma script_data_shape:
  "script_data \<noteq> [] \<and> list_all (\<lambda>c. length (snd c) = 8) script_data"
  by (simp add: script_data_def)

lemma script_features_shape: "list_all (\<lambda>c. length (snd c) = 8) script_features"
  by (simp add: script_features_def)

lemma script_3_data_shape:
  "script_3_data \<noteq> [] \<and> list_all (\<lambda>c. length (snd c) = 8) script_3_data"
  by (simp add: script_3_data_def)

lemma summary_stats_shape:
  "summary_stats \<noteq> [] \<and> list_all (\<lambda>c. length (snd c) = 4) summary_stats"
  by (simp add: summary_stats_def)

lemma scripts_rectangular:
  "rectangular script_data" "rectangular script_features"
  "rectangular script_3_data" "rectangular summary_stats"
  using script_data_shape script_features_shape script_3_data_shape summary_stats_shape
  by (auto intro: rectangular_same_length)


lemma script_3_run_value:
  "script_3_run =
     Inr \<lparr>frames_built = [script_3_data, summary_stats],
          csv_written = [(''discord_bot_feature_customization.csv'', to_csv script_3_data),
                         (''discord_user_group_demographics.csv'', to_csv summary_stats)]\<rparr>"
  by (simp add: script_3_run_def build_def export_def DataFrame_columns_def scripts_rectangular)



section \<open>Properties of the derived label columns\<close>

lemma get_col_set_col_other: "c \<noteq> k \<Longrightarrow> get_col (set_col df k vs) c = get_col df c"
  by (simp add: get_col_def set_col_def update_conv')

lemma add_Server_Short_frame:
  assumes "add_Server_Short df = Inr df'" and "c \<noteq> ''Server_Short''"
  shows "get_col df' c = get_col df c"
proof -
  from assms(1) obtain names short' where
    "df' = set_col (set_col df ''Server_Short''
              (str_strip (str_replace ''MCP'' [] (str_replace ''MCP Server'' [] names))))
            ''Server_Short'' short'"
    by (auto simp: add_Server_Short_def Let_def split: sum.splits)
  with assms(2) show ?thesis
    by (simp add: get_col_set_col_other)
qed

lemma add_truncated_frame:
  assumes "add_truncated target source df = Inr df'" and "c \<noteq> target"
  shows "get_col df' c = get_col df c"
proof -
  from assms(1) obtain col' where "df' = set_col df target col'"
    by (auto simp: add_truncated_def split: sum.splits)
  with assms(2) show ?thesis
    by (simp add: get_col_set_col_other)
qed

lemma mcp_label_columns_frame:
  assumes "mcp_label_columns df = Inr df'"
    and "c \<noteq> ''Server_Short''" "c \<noteq> ''Features_Short''" "c \<noteq> ''Use_Cases_Short''"
  shows "get_col df' c = get_col df c"
proof -
  from assms(1) obtain df1 df2 where
    s1: "add_Server_Short df = Inr df1" and
    s2: "add_truncated ''Features_Short'' ''Key Features'' df1 = Inr df2" and
    s3: "add_truncated ''Use_Cases_Short'' ''Best Use Cases'' df2 = Inr df'"
    by (auto simp: mcp_label_columns_def split: sum.splits)
  have "get_col df' c = get_col df2 c"
    using add_truncated_frame [OF s3] assms(4) by simp
  also have "\<dots> = get_col df1 c"
    using add_truncated_frame [OF s2] assms(3) by simp
  also have "\<dots> = get_col df c"
    using add_Server_Short_frame [OF s1] assms(2) by simp
  finally show ?thesis .
qed

lemma add_Short_Model_frame:
  assumes "add_Short_Model df = Inr df'" and "c \<noteq> ''Short_Model''"
  shows "get_col df' c = get_col df c"
proof -
  from assms(1) obtain col' where "df' = set_col df ''Short_Model'' col'"
    by (auto simp: add_Short_Model_def split: sum.splits)
  with assms(2) show ?thesis
    by (simp add: get_col_set_col_other)
qed

text \<open>
  C9: deriving the display labels leaves the name field of every record as it was.
  The labels are stored in columns of their own (\<open>Server_Short\<close>, \<open>Features_Short\<close>,
  \<open>Use_Cases_Short\<close>, and \<open>Short_Model\<close>); whenever the derivation goes through, every
  other column of the table, \<open>Server Name\<close> and \<open>Model\<close> among them, reads as before.
\<close>

theorem C9_labels_leave_names:
  "(mcp_label_columns df1 = Inr df1' \<longrightarrow>
      get_col df1' ''Server Name'' = get_col df1 ''Server Name'' \<and>
      (\<forall>c. c \<notin> set [''Server_Short'', ''Features_Short'', ''Use_Cases_Short''] \<longrightarrow>
           get_col df1' c = get_col df1 c)) \<and>
   (add_Short_Model df2 = Inr df2' \<longrightarrow>
      get_col df2' ''Model'' = get_col df2 ''Model'' \<and>
      (\<forall>c. c \<noteq> ''Short_Model'' \<longrightarrow> get_col df2' c = get_col df2 c))"
  using mcp_label_columns_frame [of df1 df1'] add_Short_Model_frame [of df2 df2']
  by simp

lemma mcp_frame_names:
  "get_col (DataFrame_records mcp_data) ''Server Name'' =
     Inr [Str ''Discord MCP Server'', Str ''Web Search (Brave)'', Str ''GitHub MCP Server'',
          Str ''Memory/Knowledge Graph'', Str ''PostgreSQL MCP'', Str ''File System MCP'',
          Str ''Notion MCP'', Str ''Slack MCP'', Str ''OpenAI Tools MCP'', Str ''Perplexity MCP'',
          Str ''Weather MCP'', Str ''Google Calendar MCP'', Str ''Redis MCP'', Str ''Docker MCP'',
          Str ''Stripe MCP'']"
  by (simp add: DataFrame_records_def mcp_data_def get_col_def)

lemma mcp_labels_succeed: "\<exists>df'. mcp_label_columns (DataFrame_records mcp_data) = Inr df'"
  by (simp add: DataFrame_records_def mcp_data_def mcp_label_columns_def add_Server_Short_def
      add_truncated_def get_col_def set_col_def str_accessor_def str_replace_def str_strip_def
      lambda_15_def lambda_50_def replace_str.simps strip_def lstrip_def rstrip_def is_space_def
      truncate_plain_def truncate_ellipsis_def)

lemma rate_limit_models:
  "get_col (DataFrame_records rate_limit_data) ''Model'' =
     Inr [Str ''Gemini 2.5 Flash'', Str ''Gemini 2.5 Flash-Lite'', Str ''Gemini 2.0 Flash'',
          Str ''Gemini 2.0 Flash-Lite'', Str ''Gemini 1.5 Flash'', Str ''Gemini 1.5 Flash-8B'',
          Str ''Gemma 3 & 3n'']"
  by (simp add: DataFrame_records_def rate_limit_data_def get_col_def)

lemma short_models_value:
  "\<exists>df'. add_Short_Model (DataFrame_records rate_limit_data) = Inr df' \<and>
         get_col df' ''Short_Model'' =
           Inr [Str ''G2.5 F'', Str ''G2.5 FL'', Str ''G2.0 F'', Str ''G2.0 FL'', Str ''G1.5 F'',
                Str ''G1.5 F-8B'', Str ''Ga3'']"
  by (simp add: DataFrame_records_def rate_limit_data_def add_Short_Model_def get_col_def
      set_col_def str_accessor_def str_replace_def replace_str.simps)

theorem C9_labels_leave_names_witness:
  "(\<exists>df'. mcp_label_columns (DataFrame_records mcp_data) = Inr df' \<and>
          get_col df' ''Server Name'' =
            Inr [Str ''Discord MCP Server'', Str ''Web Search (Brave)'', Str ''GitHub MCP Server'',
                 Str ''Memory/Knowledge Graph'', Str ''PostgreSQL MCP'', Str ''File System MCP'',
                 Str ''Notion MCP'', Str ''Slack MCP'', Str ''OpenAI Tools MCP'',
                 Str ''Perplexity MCP'', Str ''Weather MCP'', Str ''Google Calendar MCP'',
                 Str ''Redis MCP'', Str ''Docker MCP'', Str ''Stripe MCP'']) \<and>
   (\<exists>df'. add_Short_Model (DataFrame_records rate_limit_data) = Inr df' \<and>
          get_col df' ''Short_Model'' =
            Inr [Str ''G2.5 F'', Str ''G2.5 FL'', Str ''G2.0 F'', Str ''G2.0 FL'', Str ''G1.5 F'',
                 Str ''G1.5 F-8B'', Str ''Ga3''] \<and>
          get_col df' ''Model'' =
            Inr [Str ''Gemini 2.5 Flash'', Str ''Gemini 2.5 Flash-Lite'', Str ''Gemini 2.0 Flash'',
                 Str ''Gemini 2.0 Flash-Lite'', Str ''Gemini 1.5 Flash'',
                 Str ''Gemini 1.5 Flash-8B'', Str ''Gemma 3 & 3n''])"
proof -
  obtain a where a: "mcp_label_columns (DataFrame_records mcp_data) = Inr a"
    using mcp_labels_succeed by blast
  obtain b where b: "add_Short_Model (DataFrame_records rate_limit_data) = Inr b"
    and sm: "get_col b ''Short_Model'' =
           Inr [Str ''G2.5 F'', Str ''G2.5 FL'', Str ''G2.0 F'', Str ''G2.0 FL'', Str ''G1.5 F'',
                Str ''G1.5 F-8B'', Str ''Ga3'']"
    using short_models_value by blast
  from C9_labels_leave_names
    [of "DataFrame_records mcp_data" a "DataFrame_records rate_limit_data" b] a b
  have "get_col a ''Server Name'' = get_col (DataFrame_records mcp_data) ''Server Name''"
    and "get_col b ''Model'' = get_col (DataFrame_records rate_limit_data) ''Model''"
    by blast+
  with a b sm show ?thesis
    by (simp add: mcp_frame_names rate_limit_models)
qed

lemma feature_data_lengths: "map (\<lambda>c. length (snd c)) feature_data = [32, 17, 17]"
  by (simp add: feature_data_def)

lemma feature_data_not_rectangular: "\<not> rectangular feature_data"
proof
  assume "rectangular feature_data"
  then have "list_all (\<lambda>n. n = hd (map (\<lambda>c. length (snd c)) feature_data))
               (map (\<lambda>c. length (snd c)) feature_data)"
    by (simp add: rectangular_def list_all_iff hd_map feature_data_def)
  then show False
    by (simp add: feature_data_lengths)
qed

text \<open>
  C10: the mappings \<open>script (3).py\<close> gives to the table construction and exports are
  rectangular. The \<open>Feature Category\<close> column and the four user-group columns of
  \<open>data\<close> have 8 entries each and the columns of \<open>summary_stats\<close> 4 each, so both
  constructions succeed and the run writes its two files from them. The earlier
  \<open>feature_data\<close> literal, with columns of 32, 17 and 17 entries, would be refused by
  the construction; it is not among the mappings the run builds tables from.
\<close>

theorem C10_exported_tables_rectangular:
  "map fst script_3_data =
     [''Feature Category'', ''Gaming Communities'', ''Educational Groups'', ''Content Creators'',
      ''Professional Communities''] \<and>
   list_all (\<lambda>c. length (snd c) = 8) script_3_data \<and>
   list_all (\<lambda>c. length (snd c) = 4) summary_stats \<and>
   DataFrame_columns script_3_data = Inr script_3_data \<and>
   DataFrame_columns summary_stats = Inr summary_stats \<and>
   script_3_run =
     Inr \<lparr>frames_built = [script_3_data, summary_stats],
          csv_written = [(''discord_bot_feature_customization.csv'', to_csv script_3_data),
                         (''discord_user_group_demographics.csv'', to_csv summary_stats)]\<rparr> \<and>
   list_all rectangular [script_3_data, summary_stats] \<and>
   map (\<lambda>c. length (snd c)) feature_data = [32, 17, 17] \<and>
   \<not> rectangular feature_data \<and>
   DataFrame_columns feature_data = Inl ValueError \<and>
   feature_data \<notin> set [script_3_data, summary_stats]"
proof -
  have ne: "feature_data \<notin> set [script_3_data, summary_stats]"
    using feature_data_not_rectangular scripts_rectangular by auto
  have names: "map fst script_3_data =
     [''Feature Category'', ''Gaming Communities'', ''Educational Groups'', ''Content Creators'',
      ''Professional Communities'']"
    by (simp add: script_3_data_def)
  show ?thesis
    using ne names script_3_data_shape summary_stats_shape script_3_run_value
      feature_data_lengths feature_data_not_rectangular scripts_rectangular
    by (simp add: DataFrame_columns_def)
qed

end
